theory Spec2Isabelle
  imports Complex_Main "HOL-Library.AList"
begin

section \<open>Python values, exceptions and the process state\<close>

text \<open>
  The embedding follows \<^verbatim>\<open>main.py\<close>. A Python float is carried as a \<^typ>\<open>real\<close>: the
  pipeline stores and forwards floats and never computes with them. A dictionary is an
  association list in insertion order; \<^const>\<open>map_of\<close> reads a key and
  \<^const>\<open>AList.update\<close> assigns one (in place when the key exists, appended otherwise),
  as a Python \<^verbatim>\<open>dict\<close> does.
\<close>

type_synonym vec = "real list"

type_synonym point = "real \<times> real"

datatype pyval =
    PNone
  | PBool bool
  | PInt int
  | PStr string
  | PVec vec
  | PList "pyval list"
  | PDict "(string \<times> pyval) list"

type_synonym pydict = "(string \<times> pyval) list"

text \<open>
  The exceptions the pipeline can meet: a missing dictionary key, a list index out of
  range, a numpy row index out of bounds (index and size), a file whose directory does not
  exist, and any exception raised inside the OpenAI client, numpy, scikit-learn or
  matplotlib, carried by its message.
\<close>

datatype pyexc =
    KeyError string
  | ListIndexError
  | ArrayIndexError nat nat
  | FileNotFoundError string
  | LibError string

fun digits :: "nat \<Rightarrow> string" where
  "digits n =
     (if n < 10 then [''0123456789'' ! n]
      else digits (n div 10) @ [''0123456789'' ! (n mod 10)])"

declare digits.simps [simp del]

text \<open>\<^verbatim>\<open>str(e)\<close>; the key of a \<^verbatim>\<open>KeyError\<close> is shown quoted.\<close>

fun str_exc :: "pyexc \<Rightarrow> string" where
  "str_exc (KeyError k) = [CHR 0x27] @ k @ [CHR 0x27]"
| "str_exc ListIndexError = ''list index out of range''"
| "str_exc (ArrayIndexError i n) =
     ''index '' @ digits i @ '' is out of bounds for axis 0 with size '' @ digits n"
| "str_exc (FileNotFoundError p) =
     ''[Errno 2] No such file or directory: '' @ [CHR 0x27] @ p @ [CHR 0x27]"
| "str_exc (LibError m) = m"

text \<open>Configuration constants of \<^verbatim>\<open>main.py\<close>.\<close>

definition EMBEDDING_MODEL :: string where
  "EMBEDDING_MODEL = ''text-embedding-3-small''"

definition TSNE_COMPONENTS :: nat where
  "TSNE_COMPONENTS = 2"

definition MIN_PERPLEXITY :: int where
  "MIN_PERPLEXITY = 5"

definition STATIC_DIR :: string where
  "STATIC_DIR = ''static''"

text \<open>The keyword arguments of \<^verbatim>\<open>TSNE(...)\<close>.\<close>

record tsne_args =
  n_components :: nat
  perplexity :: int
  random_state :: "nat option"

text \<open>
  The saved figure: the scattered points, the annotations in the order they were drawn,
  and the key the heading is built from (\<^verbatim>\<open>data_type.title()\<close> only changes letter case
  and is not expanded).
\<close>

record figure =
  scatter :: "point list"
  annotations :: "(pyval \<times> point) list"
  heading_key :: string

text \<open>Calls that leave the process, in the order they are made.\<close>

datatype call =
    EmbedCall string "pyval list"
  | ReduceCall tsne_args "vec list"

text \<open>
  The module-level state: the three datasets loaded at start-up, the image files and the
  directories that exist (by path, relative to the working directory), the trace of
  outside calls, and the state of numpy's global random generator (what an unseeded
  estimator would draw from).
\<close>

record world =
  DUMMY_ARTICLES :: "pydict list"
  DUMMY_MOVIES :: "pydict list"
  HUGGING_FACE_MOVIES :: "pydict list"
  files :: "string \<rightharpoonup> figure"
  dirs :: "string set"
  calls :: "call list"
  np_random :: nat

text \<open>
  The outside collaborators, as parameters: the embeddings endpoint (model name and input
  to the \<^verbatim>\<open>embedding\<close> entries of the response, or an exception),
  \<^verbatim>\<open>TSNE.fit_transform\<close> (keyword arguments, the global generator's state and the
  input to an array of rows, or an exception), and matplotlib: \<^verbatim>\<open>plt.tight_layout()\<close>,
  which lays the figure's texts out and raises on one it cannot set (a title that is
  malformed mathtext, say), and the drawing and writing done by \<^verbatim>\<open>plt.savefig\<close>, which
  may raise for the figure or for the file (any reason but a missing directory, which
  the model of the file system decides).
\<close>

record libs =
  embeddings_create :: "string \<Rightarrow> pyval list \<Rightarrow> pyexc + vec list"
  fit_transform :: "tsne_args \<Rightarrow> nat \<Rightarrow> vec list \<Rightarrow> pyexc + point list"
  tight_layout :: "figure \<Rightarrow> pyexc option"
  draw_figure :: "string \<Rightarrow> figure \<Rightarrow> pyexc option"

text \<open>
  scikit-learn's documented contract for \<^verbatim>\<open>random_state\<close>: with an integer seed the
  estimator does not read the global generator.
\<close>

definition seeded :: "libs \<Rightarrow> bool" where
  "seeded lib =
     (\<forall>a g g' X. random_state a \<noteq> None \<longrightarrow> fit_transform lib a g X = fit_transform lib a g' X)"

text \<open>
  A dataset is a module-level list that \<^verbatim>\<open>get_data_by_type\<close> returns by reference, so
  the model returns which of the three it is.
\<close>

datatype dsref = Articles | Movies | HuggingFace

fun deref :: "world \<Rightarrow> dsref \<Rightarrow> pydict list" where
  "deref w Articles = DUMMY_ARTICLES w"
| "deref w Movies = DUMMY_MOVIES w"
| "deref w HuggingFace = HUGGING_FACE_MOVIES w"

fun assign :: "dsref \<Rightarrow> pydict list \<Rightarrow> world \<Rightarrow> world" where
  "assign Articles ds w = w\<lparr>DUMMY_ARTICLES := ds\<rparr>"
| "assign Movies ds w = w\<lparr>DUMMY_MOVIES := ds\<rparr>"
| "assign HuggingFace ds w = w\<lparr>HUGGING_FACE_MOVIES := ds\<rparr>"

record request =
  query_params :: "string \<rightharpoonup> string"
  base_url :: string

section \<open>The pipeline\<close>

text \<open>\<^verbatim>\<open>query_params.get(key, default)\<close>.\<close>

definition get_param :: "(string \<rightharpoonup> string) \<Rightarrow> string \<Rightarrow> string \<Rightarrow> string" where
  "get_param qp k d = (case qp k of None \<Rightarrow> d | Some v \<Rightarrow> v)"

definition get_data_by_type :: "world \<Rightarrow> string \<Rightarrow> string \<Rightarrow> dsref \<times> string \<times> string" where
  "get_data_by_type w data_type source =
     (if data_type = ''movies'' then
        (if source = ''huggingface'' \<and> HUGGING_FACE_MOVIES w \<noteq> []
         then (HuggingFace, ''plot'', ''title'')
         else (Movies, ''plot'', ''title''))
      else (Articles, ''content'', ''title''))"

text \<open>\<^verbatim>\<open>item[key]\<close> and \<^verbatim>\<open>[item[key] for item in data]\<close>.\<close>

definition getitem :: "pydict \<Rightarrow> string \<Rightarrow> pyexc + pyval" where
  "getitem d k = (case map_of d k of None \<Rightarrow> Inl (KeyError k) | Some v \<Rightarrow> Inr v)"

fun column :: "string \<Rightarrow> pydict list \<Rightarrow> pyexc + pyval list" where
  "column k [] = Inr []"
| "column k (d # ds) =
     (case getitem d k of
        Inl e \<Rightarrow> Inl e
      | Inr v \<Rightarrow> (case column k ds of Inl e \<Rightarrow> Inl e | Inr vs \<Rightarrow> Inr (v # vs)))"

definition generate_embeddings ::
  "libs \<Rightarrow> pyval list \<Rightarrow> world \<Rightarrow> (pyexc + vec list) \<times> world" where
  "generate_embeddings lib texts w =
     (embeddings_create lib EMBEDDING_MODEL texts,
      w\<lparr>calls := calls w @ [EmbedCall EMBEDDING_MODEL texts]\<rparr>)"

text \<open>
  The loop \<^verbatim>\<open>for i, item in enumerate(data): item["embedding"] = embedding_vectors[i]\<close>:
  the records already visited stay updated when a later index is out of range.
\<close>

fun store_embeddings :: "pydict list \<Rightarrow> vec list \<Rightarrow> pyexc option \<times> pydict list" where
  "store_embeddings [] vs = (None, [])"
| "store_embeddings (d # ds) [] = (Some ListIndexError, d # ds)"
| "store_embeddings (d # ds) (v # vs) =
     (case store_embeddings ds vs of
        (e, ds') \<Rightarrow> (e, AList.update ''embedding'' (PVec v) d # ds'))"

text \<open>
  The loop \<^verbatim>\<open>for i, title in enumerate(titles): plt.annotate(title, (tsne_2d[i, 0],
  tsne_2d[i, 1]), ...)\<close>, from index \<open>i\<close> on.
\<close>

fun annotate_from :: "nat \<Rightarrow> point list \<Rightarrow> pyval list \<Rightarrow> pyexc + (pyval \<times> point) list" where
  "annotate_from i tsne_2d [] = Inr []"
| "annotate_from i tsne_2d (t # ts) =
     (if i < length tsne_2d then
        (case annotate_from (Suc i) tsne_2d ts of
           Inl e \<Rightarrow> Inl e
         | Inr as \<Rightarrow> Inr ((t, tsne_2d ! i) # as))
      else Inl (ArrayIndexError i (length tsne_2d)))"

text \<open>\<^verbatim>\<open>os.path.join(a, b)\<close> for two components, \<^verbatim>\<open>os.path.basename\<close>,
  \<^verbatim>\<open>s.rstrip("/")\<close> and \<^verbatim>\<open>os.path.dirname\<close>.\<close>

definition path_join :: "string \<Rightarrow> string \<Rightarrow> string" where
  "path_join a b =
     (if b \<noteq> [] \<and> hd b = CHR ''/'' then b
      else if a = [] \<or> last a = CHR ''/'' then a @ b
      else a @ ''/'' @ b)"

definition basename :: "string \<Rightarrow> string" where
  "basename p = rev (takeWhile (\<lambda>c. c \<noteq> CHR ''/'') (rev p))"

definition rstrip_slash :: "string \<Rightarrow> string" where
  "rstrip_slash s = rev (dropWhile (\<lambda>c. c = CHR ''/'') (rev s))"

definition dirname :: "string \<Rightarrow> string" where
  "dirname p =
     (let head = rev (dropWhile (\<lambda>c. c \<noteq> CHR ''/'') (rev p))
      in if filter (\<lambda>c. c \<noteq> CHR ''/'') head \<noteq> [] then rstrip_slash head else head)"

text \<open>
  \<^verbatim>\<open>os.makedirs(STATIC_DIR, exist_ok=True)\<close>: the directory exists afterwards. (The
  module mounts \<^verbatim>\<open>StaticFiles(directory=STATIC_DIR)\<close> when it is loaded, which refuses
  a path that is not a directory, so the call has nothing to refuse.)
\<close>

definition makedirs :: "string \<Rightarrow> world \<Rightarrow> world" where
  "makedirs d w = w\<lparr>dirs := insert d (dirs w)\<rparr>"

text \<open>
  \<^verbatim>\<open>plt.savefig(fname, ...)\<close>: the figure is drawn, then the file is opened for
  writing, which needs the directory of \<open>fname\<close> to exist, and an existing file is
  replaced. Nothing creates a directory below \<^verbatim>\<open>static\<close>.
\<close>

definition savefig :: "libs \<Rightarrow> string \<Rightarrow> figure \<Rightarrow> world \<Rightarrow> pyexc option \<times> world" where
  "savefig lib fname fig w =
     (case draw_figure lib fname fig of
        Some e \<Rightarrow> (Some e, w)
      | None \<Rightarrow>
          if dirname fname = [] \<or> dirname fname \<in> dirs w
          then (None, w\<lparr>files := (files w)(fname \<mapsto> fig)\<rparr>)
          else (Some (FileNotFoundError fname), w))"

definition create_tsne_visualization ::
  "libs \<Rightarrow> vec list \<Rightarrow> pyval list \<Rightarrow> string \<Rightarrow> world \<Rightarrow> (pyexc + string) \<times> world" where
  "create_tsne_visualization lib embedding_vectors titles data_type w =
     (let perplexity = min MIN_PERPLEXITY (int (length embedding_vectors) - 1);
          tsne = \<lparr>n_components = TSNE_COMPONENTS, perplexity = perplexity,
                  random_state = Some 42\<rparr>;
          w1 = w\<lparr>calls := calls w @ [ReduceCall tsne embedding_vectors]\<rparr>
      in case fit_transform lib tsne (np_random w1) embedding_vectors of
           Inl e \<Rightarrow> (Inl e, w1)
         | Inr tsne_2d \<Rightarrow>
             (case annotate_from 0 tsne_2d titles of
                Inl e \<Rightarrow> (Inl e, w1)
              | Inr as \<Rightarrow>
                  (let fig = \<lparr>scatter = tsne_2d, annotations = as, heading_key = data_type\<rparr>
                   in case tight_layout lib fig of
                        Some e \<Rightarrow> (Inl e, w1)
                      | None \<Rightarrow>
                          (let w2 = makedirs STATIC_DIR w1;
                               image_path = path_join STATIC_DIR (''tsne_'' @ data_type @ ''.png'')
                           in case savefig lib image_path fig w2 of
                                (Some e, w3) \<Rightarrow> (Inl e, w3)
                              | (None, w3) \<Rightarrow> (Inr image_path, w3)))))"

definition process_data :: "libs \<Rightarrow> request \<Rightarrow> world \<Rightarrow> (pyexc + pydict) \<times> world" where
  "process_data lib req w =
     (let data_type = get_param (query_params req) ''type'' ''articles'';
          source = get_param (query_params req) ''source'' ''dummy''
      in case get_data_by_type w data_type source of
        (data, text_field, title_field) \<Rightarrow>
          (case column title_field (take 3 (deref w data)) of
             Inl e \<Rightarrow> (Inl e, w)
           | Inr sample \<Rightarrow>
          (case column text_field (deref w data) of
             Inl e \<Rightarrow> (Inl e, w)
           | Inr texts \<Rightarrow>
          (case generate_embeddings lib texts w of
             (Inl e, w1) \<Rightarrow> (Inl e, w1)
           | (Inr embedding_vectors, w1) \<Rightarrow>
          (case store_embeddings (deref w1 data) embedding_vectors of
             (Some e, data') \<Rightarrow> (Inl e, assign data data' w1)
           | (None, data') \<Rightarrow>
          (let w2 = assign data data' w1
           in case column title_field (deref w2 data) of
             Inl e \<Rightarrow> (Inl e, w2)
           | Inr titles \<Rightarrow>
          (case create_tsne_visualization lib embedding_vectors titles
                  (data_type @ ''_'' @ source) w2 of
             (Inl e, w3) \<Rightarrow> (Inl e, w3)
           | (Inr image_path, w3) \<Rightarrow>
          (let image_url = rstrip_slash (base_url req) @ ''/static/'' @ basename image_path
           in (Inr [(''type'', PStr data_type),
                    (''source'', PStr source),
                    (''count'', PInt (int (length (deref w3 data)))),
                    (''texts'', PList texts),
                    (''chart_url'', PStr image_url)], w3)))))))))"

text \<open>The route \<^verbatim>\<open>/process\<close>: \<^verbatim>\<open>except Exception\<close> turns every exception of the
  pipeline into a value.\<close>

definition get_processed_data :: "libs \<Rightarrow> request \<Rightarrow> world \<Rightarrow> pydict \<times> world" where
  "get_processed_data lib req w =
     (case process_data lib req w of
        (Inr processed_data, w') \<Rightarrow>
          ([(''success'', PBool True), (''data'', PDict processed_data)], w')
      | (Inl e, w') \<Rightarrow>
          ([(''success'', PBool False),
            (''error'', PStr (str_exc e)),
            (''message'', PStr ''Failed to process data and generate visualization'')], w'))"

section \<open>A small process state for concrete runs\<close>

text \<open>
  Two articles, two movies, no Hugging Face data (and a sparser state with no article and
  one movie); an embeddings endpoint that answers with
  one vector per input; and a reducer that, like scikit-learn, refuses a perplexity that
  is not positive or not below the number of samples, and otherwise places a row by its
  first coordinate and the seed it ran with. Its layout refuses the label \<^verbatim>\<open>$$\<close>, and
  its drawing refuses nothing.
\<close>

definition demo_articles :: "pydict list" where
  "demo_articles =
     [[(''id'', PInt 1), (''title'', PStr ''Tea''), (''content'', PStr ''green leaves'')],
      [(''id'', PInt 2), (''title'', PStr ''Ice''), (''content'', PStr ''frozen water'')]]"

definition demo_movies :: "pydict list" where
  "demo_movies =
     [[(''id'', PInt 7), (''title'', PStr ''Heat''), (''plot'', PStr ''a heist'')],
      [(''id'', PInt 8), (''title'', PStr ''Jaws''), (''plot'', PStr ''a shark'')]]"

definition demo_world :: world where
  "demo_world = \<lparr>DUMMY_ARTICLES = demo_articles, DUMMY_MOVIES = demo_movies,
     HUGGING_FACE_MOVIES = [], files = Map.empty, dirs = {''static''}, calls = [],
     np_random = 0\<rparr>"

definition demo_lib :: libs where
  "demo_lib = \<lparr>
     embeddings_create = (\<lambda>m texts. Inr (map (\<lambda>i. [real i, 1]) [0..<length texts])),
     fit_transform = (\<lambda>a g X.
        if perplexity a \<le> 0 \<or> int (length X) \<le> perplexity a
        then Inl (LibError ''perplexity must be positive and less than n_samples'')
        else Inr (map (\<lambda>v. (case v of [] \<Rightarrow> 0 | x # _ \<Rightarrow> x,
                             real (case random_state a of None \<Rightarrow> g | Some seed \<Rightarrow> seed))) X)),
     tight_layout = (\<lambda>fig.
        if PStr ''$$'' \<in> set (map fst (annotations fig))
        then Some (LibError ''ParseFatalException: Expected end of text, found $'')
        else None),
     draw_figure = (\<lambda>fname fig. None)\<rparr>"

definition sparse_world :: world where
  "sparse_world = \<lparr>DUMMY_ARTICLES = [], DUMMY_MOVIES = take 1 demo_movies,
     HUGGING_FACE_MOVIES = [], files = Map.empty, dirs = {''static''}, calls = [],
     np_random = 0\<rparr>"

definition demo_request :: request where
  "demo_request = \<lparr>query_params = Map.empty, base_url = ''http://localhost:8000/''\<rparr>"

definition movies_request :: request where
  "movies_request = \<lparr>query_params = [''type'' \<mapsto> ''movies''],
     base_url = ''http://localhost:8000/''\<rparr>"


definition stale_world :: world where
  "stale_world = demo_world\<lparr>files := [''static/tsne_articles_dummy.png'' \<mapsto>
     \<lparr>scatter = [], annotations = [], heading_key = ''stale''\<rparr>]\<rparr>"

text \<open>
  How the loop over the records may leave a record: as it was, or with its
  \<^verbatim>\<open>embedding\<close> key assigned.
\<close>

definition touched :: "pydict \<Rightarrow> pydict \<Rightarrow> bool" where
  "touched d d' = (d' = d \<or> (\<exists>v. d' = AList.update ''embedding'' (PVec v) d))"

section \<open>Auxiliary facts\<close>

lemmas demo_defs = demo_lib_def demo_request_def movies_request_def demo_world_def sparse_world_def
  demo_articles_def demo_movies_def

lemmas pipeline_defs = process_data_def get_processed_data_def
      get_param_def get_data_by_type_def getitem_def generate_embeddings_def
      create_tsne_visualization_def savefig_def makedirs_def dirname_def
      path_join_def basename_def rstrip_slash_def
      EMBEDDING_MODEL_def TSNE_COMPONENTS_def MIN_PERPLEXITY_def STATIC_DIR_def Let_def


lemma column_Inr:
  "column k ds = Inr vs \<Longrightarrow> vs = map (\<lambda>d. the (map_of d k)) ds \<and> (\<forall>d \<in> set ds. map_of d k \<noteq> None)"
  by (induction ds arbitrary: vs) (auto simp: getitem_def split: option.splits sum.splits)

lemma store_embeddings_enough:
  "length ds \<le> length vs \<Longrightarrow>
   store_embeddings ds vs = (None, map2 (\<lambda>d v. AList.update ''embedding'' (PVec v) d) ds vs)"
  by (induction ds vs rule: store_embeddings.induct) auto

lemma store_embeddings_None:
  "store_embeddings ds vs = (None, ds') \<Longrightarrow> length ds \<le> length vs"
  by (induction ds vs arbitrary: ds' rule: store_embeddings.induct) (auto split: prod.splits)

lemma store_embeddings_touched:
  "list_all2 touched ds (snd (store_embeddings ds vs))"
  by (induction ds vs rule: store_embeddings.induct)
     (auto simp: touched_def list_all2_same split: prod.splits)




lemma annotate_from_Inr:
  "annotate_from i pts ts = Inr as \<Longrightarrow> as = zip ts (drop i pts) \<and> (ts \<noteq> [] \<longrightarrow> i + length ts \<le> length pts)"
proof (induction ts arbitrary: i as)
  case Nil
  then show ?case by simp
next
  case (Cons t ts)
  from Cons.prems have lt: "i < length pts"
    by (simp split: if_splits)
  with Cons.prems obtain as' where as': "annotate_from (Suc i) pts ts = Inr as'" "as = (t, pts ! i) # as'"
    by (auto split: sum.splits)
  from Cons.IH [OF as'(1)] have "as' = zip ts (drop (Suc i) pts)" "ts \<noteq> [] \<longrightarrow> Suc i + length ts \<le> length pts"
    by simp_all
  with lt as' show ?case
    by (cases ts) (simp_all add: Cons_nth_drop_Suc [symmetric])
qed

lemma deref_assign: "deref (assign r ds w) r' = (if r' = r then ds else deref w r')"
  by (cases r; cases r') simp_all

lemma assign_fields [simp]:
  "files (assign r ds w) = files w" "calls (assign r ds w) = calls w"
  "np_random (assign r ds w) = np_random w" "dirs (assign r ds w) = dirs w"
  by (cases r; simp)+



lemma deref_dirs [simp]: "deref (w\<lparr>dirs := ds\<rparr>) r = deref w r"
  by (cases r) simp_all

lemma deref_files [simp]: "deref (w\<lparr>files := fs\<rparr>) r = deref w r"
  by (cases r) simp_all


lemma create_tsne_visualization_Inr:
  assumes "create_tsne_visualization lib evs titles key w = (Inr p, w')"
  shows "\<exists>pts. fit_transform lib \<lparr>n_components = TSNE_COMPONENTS,
            perplexity = min MIN_PERPLEXITY (int (length evs) - 1), random_state = Some 42\<rparr>
            (np_random w) evs = Inr pts \<and>
          annotate_from 0 pts titles = Inr (zip titles pts) \<and>
          tight_layout lib \<lparr>scatter = pts, annotations = zip titles pts, heading_key = key\<rparr> = None \<and>
          draw_figure lib p \<lparr>scatter = pts, annotations = zip titles pts, heading_key = key\<rparr> = None \<and>
          (dirname p = [] \<or> dirname p \<in> insert STATIC_DIR (dirs w)) \<and>
          p = path_join STATIC_DIR (''tsne_'' @ key @ ''.png'') \<and>
          w' = w\<lparr>calls := calls w @ [ReduceCall \<lparr>n_components = TSNE_COMPONENTS,
                    perplexity = min MIN_PERPLEXITY (int (length evs) - 1),
                    random_state = Some 42\<rparr> evs],
                 dirs := insert STATIC_DIR (dirs w),
                 files := (files w)(p \<mapsto> \<lparr>scatter = pts, annotations = zip titles pts,
                    heading_key = key\<rparr>)\<rparr>"
  using assms
  by (auto simp: create_tsne_visualization_def savefig_def makedirs_def Let_def
      split: sum.splits option.splits if_splits dest: annotate_from_Inr)

lemma create_tsne_visualization_ok:
  assumes "fit_transform lib \<lparr>n_components = TSNE_COMPONENTS,
            perplexity = min MIN_PERPLEXITY (int (length evs) - 1), random_state = Some 42\<rparr>
            (np_random w) evs = Inr pts"
    and "annotate_from 0 pts titles = Inr as"
    and "tight_layout lib \<lparr>scatter = pts, annotations = as, heading_key = key\<rparr> = None"
    and "draw_figure lib p \<lparr>scatter = pts, annotations = as, heading_key = key\<rparr> = None"
    and "dirname p = [] \<or> dirname p \<in> insert STATIC_DIR (dirs w)"
    and "p = path_join STATIC_DIR (''tsne_'' @ key @ ''.png'')"
  shows "create_tsne_visualization lib evs titles key w =
      (Inr p, w\<lparr>calls := calls w @ [ReduceCall \<lparr>n_components = TSNE_COMPONENTS,
                    perplexity = min MIN_PERPLEXITY (int (length evs) - 1),
                    random_state = Some 42\<rparr> evs],
                 dirs := insert STATIC_DIR (dirs w),
                 files := (files w)(p \<mapsto> \<lparr>scatter = pts, annotations = as,
                    heading_key = key\<rparr>)\<rparr>)"
  using assms(1-5) unfolding assms(6)
  by (auto simp: create_tsne_visualization_def savefig_def makedirs_def Let_def)

lemma create_tsne_visualization_Inl:
  assumes "create_tsne_visualization lib evs titles key w = (Inl e, w')"
  shows "w' = w\<lparr>calls := calls w @ [ReduceCall \<lparr>n_components = TSNE_COMPONENTS,
                    perplexity = min MIN_PERPLEXITY (int (length evs) - 1),
                    random_state = Some 42\<rparr> evs]\<rparr> \<or>
         w' = w\<lparr>calls := calls w @ [ReduceCall \<lparr>n_components = TSNE_COMPONENTS,
                    perplexity = min MIN_PERPLEXITY (int (length evs) - 1),
                    random_state = Some 42\<rparr> evs],
                 dirs := insert STATIC_DIR (dirs w)\<rparr>"
  using assms
  by (auto simp: create_tsne_visualization_def savefig_def makedirs_def Let_def
      split: sum.splits option.splits if_splits)

lemma dirname_static:
  assumes "CHR ''/'' \<notin> set key"
  shows "dirname (''static/tsne_'' @ key @ ''.png'') = ''static''"
proof -
  have "dropWhile (\<lambda>c. c \<noteq> CHR ''/'') (rev (''tsne_'' @ key @ ''.png'') @ rev ''static/'') =
      dropWhile (\<lambda>c. c \<noteq> CHR ''/'') (rev ''static/'')"
    using assms by (intro dropWhile_append2) auto
  then have "dropWhile (\<lambda>c. c \<noteq> CHR ''/'') (rev (''static/tsne_'' @ key @ ''.png'')) = rev ''static/''"
    by simp
  then show ?thesis
    by (simp add: dirname_def rstrip_slash_def)
qed

lemma static_path: "path_join STATIC_DIR (''tsne_'' @ key @ ''.png'') = ''static/tsne_'' @ key @ ''.png''"
  by (simp add: path_join_def STATIC_DIR_def)

lemma demo_lib_seeded: "seeded demo_lib"
  by (auto simp: seeded_def demo_lib_def)

lemma deref_calls [simp]: "deref (w\<lparr>calls := cs\<rparr>) r = deref w r"
  by (cases r) simp_all

lemma process_data_Inr:
  assumes "process_data lib req w = (Inr res, w')"
  shows "\<exists>data text_field title_field texts evs ds' titles path.
     get_data_by_type w (get_param (query_params req) ''type'' ''articles'')
        (get_param (query_params req) ''source'' ''dummy'') = (data, text_field, title_field) \<and>
     column text_field (deref w data) = Inr texts \<and>
     embeddings_create lib EMBEDDING_MODEL texts = Inr evs \<and>
     store_embeddings (deref w data) evs = (None, ds') \<and>
     column title_field ds' = Inr titles \<and>
     create_tsne_visualization lib evs titles
        (get_param (query_params req) ''type'' ''articles'' @ ''_'' @
         get_param (query_params req) ''source'' ''dummy'')
        (assign data ds' (w\<lparr>calls := calls w @ [EmbedCall EMBEDDING_MODEL texts]\<rparr>)) = (Inr path, w') \<and>
     res = [(''type'', PStr (get_param (query_params req) ''type'' ''articles'')),
            (''source'', PStr (get_param (query_params req) ''source'' ''dummy'')),
            (''count'', PInt (int (length (deref w' data)))),
            (''texts'', PList texts),
            (''chart_url'', PStr (rstrip_slash (base_url req) @ ''/static/'' @ basename path))]"
  using assms unfolding process_data_def Let_def generate_embeddings_def
  by (auto simp: deref_assign split: prod.splits sum.splits option.splits)

lemma process_data_cong:
  assumes "get_param (query_params r1) ''type'' ''articles'' = get_param (query_params r2) ''type'' ''articles''"
    and "get_param (query_params r1) ''source'' ''dummy'' = get_param (query_params r2) ''source'' ''dummy''"
    and "base_url r1 = base_url r2"
  shows "process_data lib r1 w = process_data lib r2 w"
  unfolding process_data_def assms by (rule refl)

lemma touched_refl: "list_all2 touched ds ds"
  by (simp add: list_all2_same touched_def)

lemma store_embeddings_touched':
  "store_embeddings ds vs = (e, ds') \<Longrightarrow> list_all2 touched ds ds'"
  using store_embeddings_touched [of ds vs] by simp

lemma create_tsne_visualization_frame:
  assumes "create_tsne_visualization lib evs titles key w = (r, w')"
  shows "(\<forall>ref. deref w' ref = deref w ref) \<and> np_random w' = np_random w \<and>
         (\<forall>p. p \<noteq> ''static/tsne_'' @ key @ ''.png'' \<longrightarrow> files w' p = files w p)"
proof (cases r)
  case (Inl e)
  with assms have "create_tsne_visualization lib evs titles key w = (Inl e, w')"
    by simp
  from create_tsne_visualization_Inl [OF this] show ?thesis
    by auto
next
  case (Inr p)
  with assms have run: "create_tsne_visualization lib evs titles key w = (Inr p, w')"
    by simp
  from create_tsne_visualization_Inr [OF run] obtain fig where
    p: "p = path_join STATIC_DIR (''tsne_'' @ key @ ''.png'')" and
    w': "w' = w\<lparr>calls := calls w @ [ReduceCall \<lparr>n_components = TSNE_COMPONENTS,
                    perplexity = min MIN_PERPLEXITY (int (length evs) - 1),
                    random_state = Some 42\<rparr> evs],
                 dirs := insert STATIC_DIR (dirs w),
                 files := (files w)(p \<mapsto> fig)\<rparr>"
    by blast
  have "p = ''static/tsne_'' @ key @ ''.png''"
    unfolding p by (rule static_path)
  then show ?thesis
    using w' by simp
qed

lemma process_data_frame:
  assumes run: "process_data lib req w = (r, w')"
    and resolved: "get_data_by_type w (get_param (query_params req) ''type'' ''articles'')
        (get_param (query_params req) ''source'' ''dummy'') = (data, text_field, title_field)"
  shows "(\<forall>other. other \<noteq> data \<longrightarrow> deref w' other = deref w other) \<and>
         list_all2 touched (deref w data) (deref w' data) \<and>
         np_random w' = np_random w \<and>
         (\<forall>p. p \<noteq> ''static/tsne_'' @ get_param (query_params req) ''type'' ''articles'' @ ''_'' @
              get_param (query_params req) ''source'' ''dummy'' @ ''.png'' \<longrightarrow>
            files w' p = files w p)"
  using run unfolding process_data_def Let_def generate_embeddings_def resolved
  by (auto simp: deref_assign touched_refl
      split: prod.splits sum.splits option.splits
      dest!: create_tsne_visualization_frame store_embeddings_touched')


text \<open>
  Two runs that end after the annotations are drawn: a type with a slash names a file in
  a directory that nobody created, and a title that is malformed mathtext is refused by
  the layout. In both the records already carry their vectors.
\<close>

lemma slash_in_type_has_no_directory:
  "fst (get_processed_data demo_lib
      (demo_request\<lparr>query_params := [''type'' \<mapsto> ''a/b'']\<rparr>) demo_world) =
     [(''success'', PBool False),
      (''error'', PStr (''[Errno 2] No such file or directory: '' @
         [CHR 0x27] @ ''static/tsne_a/b_dummy.png'' @ [CHR 0x27])),
      (''message'', PStr ''Failed to process data and generate visualization'')] \<and>
   files (snd (get_processed_data demo_lib
      (demo_request\<lparr>query_params := [''type'' \<mapsto> ''a/b'']\<rparr>) demo_world)) = Map.empty"
  by (simp add: demo_defs pipeline_defs upt_rec)

lemma mathtext_title_is_refused:
  "fst (get_processed_data demo_lib demo_request
      (demo_world\<lparr>DUMMY_ARTICLES :=
         [[(''title'', PStr ''$$''), (''content'', PStr ''green leaves'')],
          [(''title'', PStr ''Ice''), (''content'', PStr ''frozen water'')]]\<rparr>)) =
     [(''success'', PBool False),
      (''error'', PStr ''ParseFatalException: Expected end of text, found $''),
      (''message'', PStr ''Failed to process data and generate visualization'')]"
  by (simp add: demo_defs pipeline_defs upt_rec)

section \<open>Claims\<close>







text \<open>
  C3. The request cannot select a field: a \<^verbatim>\<open>text_field\<close> query parameter that names no
  field of the records is ignored and the movies are processed with their \<^verbatim>\<open>plot\<close>
  field. At such a request the route answers with success.
\<close>

theorem text_field_parameter_ignored:
  "fst (get_processed_data demo_lib
      \<lparr>query_params = [''type'' \<mapsto> ''movies'', ''text_field'' \<mapsto> ''invalid_field''],
       base_url = ''http://localhost:8000/''\<rparr> demo_world) =
     [(''success'', PBool True),
      (''data'', PDict [(''type'', PStr ''movies''), (''source'', PStr ''dummy''), (''count'', PInt 2),
          (''texts'', PList [PStr ''a heist'', PStr ''a shark'']),
          (''chart_url'', PStr ''http://localhost:8000/static/tsne_movies_dummy.png'')])]"
  by (simp add: demo_defs pipeline_defs upt_rec)

text \<open>A record without the field the type fixes ends the run with a \<^verbatim>\<open>KeyError\<close>, whose
  message is the quoted key.\<close>

theorem missing_field_is_a_bare_key_error:
  "fst (get_processed_data demo_lib movies_request
      (demo_world\<lparr>DUMMY_MOVIES := [[(''id'', PInt 7), (''title'', PStr ''Heat'')]]\<rparr>)) =
     [(''success'', PBool False), (''error'', PStr [CHR 0x27, CHR ''p'', CHR ''l'', CHR ''o'', CHR ''t'', CHR 0x27]),
      (''message'', PStr ''Failed to process data and generate visualization'')]"
  by (simp add: demo_defs pipeline_defs upt_rec)



text \<open>
  C5. The path a rendering writes is \<^verbatim>\<open>static/tsne_<key>.png\<close>, a function of the key
  alone, and after it the file at that path holds the figure just drawn (the reducer's
  points, each title at its point), whatever lay there before; when a file lay there, no
  file is added. Rendering again with the same key, vectors and titles in the state the
  first rendering left succeeds, returns the same path and leaves the files as they were.
\<close>

theorem render_overwrites_same_path:
  assumes "create_tsne_visualization lib evs titles key w = (Inr p, w1)"
  shows "p = ''static/tsne_'' @ key @ ''.png'' \<and>
         (\<exists>pts. fit_transform lib \<lparr>n_components = TSNE_COMPONENTS,
                  perplexity = min MIN_PERPLEXITY (int (length evs) - 1), random_state = Some 42\<rparr>
                  (np_random w) evs = Inr pts \<and>
               files w1 = (files w)(p \<mapsto>
                  \<lparr>scatter = pts, annotations = zip titles pts, heading_key = key\<rparr>)) \<and>
         (\<forall>old. files w p = Some old \<longrightarrow> dom (files w1) = dom (files w)) \<and>
         (\<exists>w2. create_tsne_visualization lib evs titles key w1 = (Inr p, w2) \<and>
               files w2 = files w1) \<and>
         dom (files w1) = insert p (dom (files w))"
proof -
  let ?tsne = "\<lparr>n_components = TSNE_COMPONENTS,
            perplexity = min MIN_PERPLEXITY (int (length evs) - 1), random_state = Some 42\<rparr>"
  from create_tsne_visualization_Inr [OF assms] obtain pts where
    fit: "fit_transform lib ?tsne (np_random w) evs = Inr pts"
    and ann: "annotate_from 0 pts titles = Inr (zip titles pts)"
    and layout: "tight_layout lib \<lparr>scatter = pts, annotations = zip titles pts, heading_key = key\<rparr> = None"
    and drawn: "draw_figure lib p \<lparr>scatter = pts, annotations = zip titles pts, heading_key = key\<rparr> = None"
    and p: "p = path_join STATIC_DIR (''tsne_'' @ key @ ''.png'')"
    and w1: "w1 = w\<lparr>calls := calls w @ [ReduceCall ?tsne evs],
                 dirs := insert STATIC_DIR (dirs w),
                 files := (files w)(p \<mapsto> \<lparr>scatter = pts, annotations = zip titles pts,
                    heading_key = key\<rparr>)\<rparr>"
    and parent: "dirname p = [] \<or> dirname p \<in> insert STATIC_DIR (dirs w)"
    by blast
  let ?fig = "\<lparr>scatter = pts, annotations = zip titles pts, heading_key = key\<rparr>"
  have written: "files w1 = (files w)(p \<mapsto> ?fig)"
    by (simp add: w1)
  have fit1: "fit_transform lib ?tsne (np_random w1) evs = Inr pts"
    using fit by (simp add: w1)
  have parent1: "dirname p = [] \<or> dirname p \<in> insert STATIC_DIR (dirs w1)"
    using parent by (auto simp: w1)
  note again = create_tsne_visualization_ok [OF fit1 ann layout drawn parent1 p]
  have same: "(files w1)(p \<mapsto> ?fig) = files w1"
    unfolding written by simp
  have twice: "\<exists>w2. create_tsne_visualization lib evs titles key w1 = (Inr p, w2) \<and>
      files w2 = files w1"
    unfolding again using same by simp
  have grown: "dom (files w1) = insert p (dom (files w))"
    unfolding written by simp
  then have kept: "\<forall>old. files w p = Some old \<longrightarrow> dom (files w1) = dom (files w)"
    by auto
  have named: "p = ''static/tsne_'' @ key @ ''.png''"
    unfolding p by (rule static_path)
  from named fit written kept twice grown show ?thesis
    by blast
qed

theorem render_overwrites_same_path_witness:
  "files stale_world ''static/tsne_articles_dummy.png'' =
     Some \<lparr>scatter = [], annotations = [], heading_key = ''stale''\<rparr> \<and>
   (\<exists>w1. create_tsne_visualization demo_lib [[0, 1], [1, 1]] [PStr ''Tea'', PStr ''Ice'']
           ''articles_dummy'' stale_world = (Inr ''static/tsne_articles_dummy.png'', w1) \<and>
     files w1 ''static/tsne_articles_dummy.png'' =
       Some \<lparr>scatter = [(0, 42), (1, 42)],
             annotations = [(PStr ''Tea'', (0, 42)), (PStr ''Ice'', (1, 42))],
             heading_key = ''articles_dummy''\<rparr> \<and>
     (\<exists>w2. create_tsne_visualization demo_lib [[0, 1], [1, 1]] [PStr ''Tea'', PStr ''Ice'']
           ''articles_dummy'' w1 = (Inr ''static/tsne_articles_dummy.png'', w2) \<and>
        files w2 = files w1) \<and>
     dom (files w1) = {''static/tsne_articles_dummy.png''})"
proof -
  have before: "files stale_world ''static/tsne_articles_dummy.png'' =
     Some \<lparr>scatter = [], annotations = [], heading_key = ''stale''\<rparr>"
    "dom (files stale_world) = {''static/tsne_articles_dummy.png''}"
    "np_random stale_world = 0"
    by (simp_all add: stale_world_def demo_world_def)
  obtain w1 where run: "create_tsne_visualization demo_lib [[0, 1], [1, 1]] [PStr ''Tea'', PStr ''Ice'']
           ''articles_dummy'' stale_world = (Inr ''static/tsne_articles_dummy.png'', w1)"
    by (simp add: stale_world_def demo_defs pipeline_defs)
  have reduced: "fit_transform demo_lib \<lparr>n_components = TSNE_COMPONENTS,
        perplexity = min MIN_PERPLEXITY (int (length [[0, 1], [1, 1 :: real]]) - 1),
        random_state = Some 42\<rparr> 0 [[0, 1], [1, 1]] = Inr [(0, 42), (1, 42)]"
    by (simp add: demo_lib_def MIN_PERPLEXITY_def)
  note shown = render_overwrites_same_path [OF run]
  from shown [THEN conjunct2, THEN conjunct1] obtain pts where
    both: "fit_transform demo_lib \<lparr>n_components = TSNE_COMPONENTS,
        perplexity = min MIN_PERPLEXITY (int (length [[0, 1], [1, 1 :: real]]) - 1),
        random_state = Some 42\<rparr> (np_random stale_world) [[0, 1], [1, 1]] = Inr pts \<and>
      files w1 = (files stale_world)(''static/tsne_articles_dummy.png'' \<mapsto>
        \<lparr>scatter = pts, annotations = zip [PStr ''Tea'', PStr ''Ice''] pts,
         heading_key = ''articles_dummy''\<rparr>)"
    ..
  note fit = both [THEN conjunct1] and written = both [THEN conjunct2]
  from fit reduced have pts: "pts = [(0, 42), (1, 42)]"
    unfolding before(3) by simp
  have held: "files w1 ''static/tsne_articles_dummy.png'' =
       Some \<lparr>scatter = [(0, 42), (1, 42)],
             annotations = [(PStr ''Tea'', (0, 42)), (PStr ''Ice'', (1, 42))],
             heading_key = ''articles_dummy''\<rparr>"
    unfolding written pts by simp
  note twice = shown [THEN conjunct2, THEN conjunct2, THEN conjunct2, THEN conjunct1]
  note grown = shown [THEN conjunct2, THEN conjunct2, THEN conjunct2, THEN conjunct2]
  have only: "dom (files w1) = {''static/tsne_articles_dummy.png''}"
    unfolding grown before(2) by simp
  show ?thesis
    by (rule conjI, rule before(1), rule exI [of _ w1], intro conjI) (fact run held twice only)+
qed

text \<open>
  C6 (as the code has it). The route always returns a value. After a successful run it
  has \<^verbatim>\<open>success\<close> true and \<^verbatim>\<open>data\<close> with \<^verbatim>\<open>type\<close>, \<^verbatim>\<open>source\<close>, \<^verbatim>\<open>count\<close>,
  \<^verbatim>\<open>texts\<close> and \<^verbatim>\<open>chart_url\<close>; after a run that raised it has \<^verbatim>\<open>success\<close> false,
  \<^verbatim>\<open>error\<close> with the exception's message and a fixed \<^verbatim>\<open>message\<close>.
\<close>

theorem get_processed_data_shape:
  "(\<exists>d w' n texts url.
      process_data lib req w = (Inr d, w') \<and>
      snd (get_processed_data lib req w) = w' \<and>
      map_of (fst (get_processed_data lib req w)) ''success'' = Some (PBool True) \<and>
      map_of (fst (get_processed_data lib req w)) ''data'' = Some (PDict d) \<and>
      map_of d ''type'' = Some (PStr (get_param (query_params req) ''type'' ''articles'')) \<and>
      map_of d ''source'' = Some (PStr (get_param (query_params req) ''source'' ''dummy'')) \<and>
      map_of d ''count'' = Some (PInt n) \<and>
      map_of d ''texts'' = Some (PList texts) \<and>
      map_of d ''chart_url'' = Some (PStr url)) \<or>
   (\<exists>e w'.
      process_data lib req w = (Inl e, w') \<and>
      snd (get_processed_data lib req w) = w' \<and>
      map_of (fst (get_processed_data lib req w)) ''success'' = Some (PBool False) \<and>
      map_of (fst (get_processed_data lib req w)) ''error'' = Some (PStr (str_exc e)) \<and>
      map_of (fst (get_processed_data lib req w)) ''message'' =
        Some (PStr ''Failed to process data and generate visualization''))"
proof (cases "process_data lib req w")
  case (Pair r w')
  show ?thesis
  proof (cases r)
    case (Inl e)
    with Pair show ?thesis
      by (simp add: get_processed_data_def)
  next
    case (Inr d)
    with Pair have run: "process_data lib req w = (Inr d, w')"
      by simp
    from process_data_Inr [OF run] obtain n texts url where
      "d = [(''type'', PStr (get_param (query_params req) ''type'' ''articles'')),
            (''source'', PStr (get_param (query_params req) ''source'' ''dummy'')),
            (''count'', PInt n), (''texts'', PList texts), (''chart_url'', PStr url)]"
      by blast
    with run show ?thesis
      by (simp add: get_processed_data_def)
  qed
qed

theorem get_processed_data_shape_witness:
  "map_of (fst (get_processed_data demo_lib demo_request demo_world)) ''success'' = Some (PBool True) \<and>
   (\<exists>d. map_of (fst (get_processed_data demo_lib demo_request demo_world)) ''data'' = Some (PDict d) \<and>
     map_of d ''type'' = Some (PStr ''articles'') \<and>
     map_of d ''source'' = Some (PStr ''dummy''))"
proof -
  have ok: "map_of (fst (get_processed_data demo_lib demo_request demo_world)) ''success'' = Some (PBool True)"
    by (simp add: demo_defs pipeline_defs upt_rec)
  have "get_param (query_params demo_request) ''type'' ''articles'' = ''articles''"
    "get_param (query_params demo_request) ''source'' ''dummy'' = ''dummy''"
    by (simp_all add: get_param_def demo_request_def)
  with get_processed_data_shape [of demo_lib demo_request demo_world] ok show ?thesis
    by auto
qed

text \<open>The two values the route returns for a run that succeeds and one that raises.\<close>

theorem response_keys_counterexample:
  "fst (get_processed_data demo_lib demo_request demo_world) =
     [(''success'', PBool True),
      (''data'', PDict [(''type'', PStr ''articles''), (''source'', PStr ''dummy''), (''count'', PInt 2),
          (''texts'', PList [PStr ''green leaves'', PStr ''frozen water'']),
          (''chart_url'', PStr ''http://localhost:8000/static/tsne_articles_dummy.png'')])] \<and>
   fst (get_processed_data demo_lib movies_request sparse_world) =
     [(''success'', PBool False),
      (''error'', PStr ''perplexity must be positive and less than n_samples''),
      (''message'', PStr ''Failed to process data and generate visualization'')]"
  by (simp add: demo_defs pipeline_defs upt_rec)

text \<open>
  C7 (as the code has it). The embedding stage changes neither the datasets nor the files.
  The run then assigns each record of the selected module-level dataset its vector under
  the key \<^verbatim>\<open>embedding\<close>, and that stays after the request. Nothing else changes: the
  other datasets are as before, a record of the selected one is as before or differs in
  that key only, and every file but the artifact's path is as before. After a successful
  run every record carries the vector of its position.
\<close>

theorem run_stores_embeddings_on_records:
  assumes run: "process_data lib req w = (r, w')"
    and resolved: "get_data_by_type w (get_param (query_params req) ''type'' ''articles'')
        (get_param (query_params req) ''source'' ''dummy'') = (data, text_field, title_field)"
  shows "(\<forall>texts ref. deref (snd (generate_embeddings lib texts w)) ref = deref w ref \<and>
            files (snd (generate_embeddings lib texts w)) = files w) \<and>
         (\<forall>other. other \<noteq> data \<longrightarrow> deref w' other = deref w other) \<and>
         length (deref w' data) = length (deref w data) \<and>
         (\<forall>i < length (deref w data).
            deref w' data ! i = deref w data ! i \<or>
            (\<exists>v. deref w' data ! i = AList.update ''embedding'' (PVec v) (deref w data ! i))) \<and>
         (\<forall>p. p \<noteq> ''static/tsne_'' @ get_param (query_params req) ''type'' ''articles'' @ ''_'' @
                  get_param (query_params req) ''source'' ''dummy'' @ ''.png'' \<longrightarrow>
              files w' p = files w p) \<and>
         (\<forall>res. r = Inr res \<longrightarrow>
            (\<exists>evs. embeddings_create lib EMBEDDING_MODEL
                     (map (\<lambda>item. the (map_of item text_field)) (deref w data)) = Inr evs \<and>
                   length (deref w data) \<le> length evs \<and>
                   deref w' data =
                     map2 (\<lambda>item v. AList.update ''embedding'' (PVec v) item) (deref w data) evs))"
proof -
  have stage: "deref (snd (generate_embeddings lib texts w)) ref = deref w ref \<and>
      files (snd (generate_embeddings lib texts w)) = files w" for texts ref
    by (simp add: generate_embeddings_def)
  from process_data_frame [OF run resolved] have
    others: "\<forall>other. other \<noteq> data \<longrightarrow> deref w' other = deref w other" and
    rel: "list_all2 touched (deref w data) (deref w' data)" and
    other_files: "\<forall>p. p \<noteq> ''static/tsne_'' @ get_param (query_params req) ''type'' ''articles'' @ ''_'' @
              get_param (query_params req) ''source'' ''dummy'' @ ''.png'' \<longrightarrow>
            files w' p = files w p"
    by simp_all
  from rel have len: "length (deref w' data) = length (deref w data)"
    by (simp add: list_all2_lengthD)
  from rel have each: "\<forall>i < length (deref w data).
            deref w' data ! i = deref w data ! i \<or>
            (\<exists>v. deref w' data ! i = AList.update ''embedding'' (PVec v) (deref w data ! i))"
    by (simp add: list_all2_conv_all_nth touched_def)
  have success: "\<exists>evs. embeddings_create lib EMBEDDING_MODEL
                     (map (\<lambda>item. the (map_of item text_field)) (deref w data)) = Inr evs \<and>
                   length (deref w data) \<le> length evs \<and>
                   deref w' data =
                     map2 (\<lambda>item v. AList.update ''embedding'' (PVec v) item) (deref w data) evs"
    if "r = Inr res" for res
  proof -
    from run that have "process_data lib req w = (Inr res, w')"
      by simp
    from process_data_Inr [OF this] resolved obtain texts evs ds' titles path where
      texts: "column text_field (deref w data) = Inr texts" and
      evs: "embeddings_create lib EMBEDDING_MODEL texts = Inr evs" and
      stored: "store_embeddings (deref w data) evs = (None, ds')" and
      viz: "create_tsne_visualization lib evs titles
        (get_param (query_params req) ''type'' ''articles'' @ ''_'' @
         get_param (query_params req) ''source'' ''dummy'')
        (assign data ds' (w\<lparr>calls := calls w @ [EmbedCall EMBEDDING_MODEL texts]\<rparr>)) = (Inr path, w')"
      by auto
    from stored have enough: "length (deref w data) \<le> length evs"
      by (rule store_embeddings_None)
    with stored have ds': "ds' = map2 (\<lambda>item v. AList.update ''embedding'' (PVec v) item) (deref w data) evs"
      by (simp add: store_embeddings_enough)
    from create_tsne_visualization_frame [OF viz] have "deref w' data = ds'"
      by (simp add: deref_assign)
    moreover from column_Inr [OF texts] have "texts = map (\<lambda>item. the (map_of item text_field)) (deref w data)"
      by simp
    ultimately show ?thesis
      using evs enough ds' by simp
  qed
  from stage others len each other_files success show ?thesis
    by blast
qed

theorem run_stores_embeddings_on_records_witness:
  "\<exists>res w'. process_data demo_lib demo_request demo_world = (Inr res, w') \<and>
     deref w' Movies = demo_movies \<and>
     deref w' HuggingFace = [] \<and>
     deref w' Articles =
       map2 (\<lambda>item v. AList.update ''embedding'' (PVec v) item) demo_articles [[0, 1], [1, 1]] \<and>
     files w' ''static/tsne_movies_dummy.png'' = None"
proof -
  obtain res w' where run: "process_data demo_lib demo_request demo_world = (Inr res, w')"
    by (simp add: demo_defs pipeline_defs upt_rec)
  have resolved: "get_data_by_type demo_world (get_param (query_params demo_request) ''type'' ''articles'')
      (get_param (query_params demo_request) ''source'' ''dummy'') = (Articles, ''content'', ''title'')"
    by (simp add: get_data_by_type_def get_param_def demo_request_def)
  have evs: "embeddings_create demo_lib EMBEDDING_MODEL
      (map (\<lambda>item. the (map_of item ''content'')) (deref demo_world Articles)) = Inr [[0, 1], [1, 1]]"
    by (simp add: demo_lib_def demo_world_def demo_articles_def upt_rec)
  have start: "deref demo_world Movies = demo_movies" "deref demo_world HuggingFace = []"
    "deref demo_world Articles = demo_articles"
    "files demo_world ''static/tsne_movies_dummy.png'' = None"
    by (simp_all add: demo_world_def)
  have "get_param (query_params demo_request) ''type'' ''articles'' = ''articles''"
    "get_param (query_params demo_request) ''source'' ''dummy'' = ''dummy''"
    by (simp_all add: get_param_def demo_request_def)
  with run_stores_embeddings_on_records [OF run resolved] evs start
  have "deref w' Movies = demo_movies" "deref w' HuggingFace = []"
     "deref w' Articles =
       map2 (\<lambda>item v. AList.update ''embedding'' (PVec v) item) demo_articles [[0, 1], [1, 1]]"
     "files w' ''static/tsne_movies_dummy.png'' = None"
    by auto
  with run show ?thesis
    by blast
qed

text \<open>After a run the articles of the module carry their vectors.\<close>

theorem embeddings_outlive_request_counterexample:
  "DUMMY_ARTICLES (snd (process_data demo_lib demo_request demo_world)) =
     [[(''id'', PInt 1), (''title'', PStr ''Tea''), (''content'', PStr ''green leaves''),
       (''embedding'', PVec [0, 1])],
      [(''id'', PInt 2), (''title'', PStr ''Ice''), (''content'', PStr ''frozen water''),
       (''embedding'', PVec [1, 1])]] \<and>
   DUMMY_ARTICLES (snd (process_data demo_lib demo_request demo_world)) \<noteq> DUMMY_ARTICLES demo_world"
  by (simp add: demo_defs pipeline_defs upt_rec)

text \<open>
  C8 (as the code has it). A request without \<^verbatim>\<open>type\<close> runs as one with
  \<^verbatim>\<open>type=articles\<close>, and a request without \<^verbatim>\<open>source\<close> runs as one with
  \<^verbatim>\<open>source=dummy\<close>.
\<close>

theorem omitted_parameters_default:
  "(query_params req ''type'' = None \<longrightarrow>
      process_data lib req w =
      process_data lib (req\<lparr>query_params := (query_params req)(''type'' \<mapsto> ''articles'')\<rparr>) w) \<and>
   (query_params req ''source'' = None \<longrightarrow>
      process_data lib req w =
      process_data lib (req\<lparr>query_params := (query_params req)(''source'' \<mapsto> ''dummy'')\<rparr>) w)"
  by (auto intro!: process_data_cong simp: get_param_def)

theorem omitted_parameters_default_witness:
  "query_params demo_request ''type'' = None \<and>
   query_params demo_request ''source'' = None \<and>
   process_data demo_lib demo_request demo_world =
     process_data demo_lib
       (demo_request\<lparr>query_params := (query_params demo_request)(''type'' \<mapsto> ''articles'')\<rparr>)
       demo_world \<and>
   process_data demo_lib demo_request demo_world =
     process_data demo_lib
       (demo_request\<lparr>query_params := (query_params demo_request)(''source'' \<mapsto> ''dummy'')\<rparr>)
       demo_world"
proof -
  have omitted: "query_params demo_request ''type'' = None" "query_params demo_request ''source'' = None"
    by (simp_all add: demo_request_def)
  with omitted_parameters_default [of demo_request demo_lib demo_world] show ?thesis
    by blast
qed

text \<open>A request with no parameter is answered for the source \<^verbatim>\<open>dummy\<close>, and differently
  from one that asks for \<^verbatim>\<open>builtin\<close>.\<close>

theorem default_source_counterexample:
  "fst (process_data demo_lib demo_request demo_world) =
     Inr [(''type'', PStr ''articles''), (''source'', PStr ''dummy''), (''count'', PInt 2),
          (''texts'', PList [PStr ''green leaves'', PStr ''frozen water'']),
          (''chart_url'', PStr ''http://localhost:8000/static/tsne_articles_dummy.png'')] \<and>
   fst (process_data demo_lib demo_request demo_world) \<noteq>
     fst (process_data demo_lib (demo_request\<lparr>query_params := [''source'' \<mapsto> ''builtin'']\<rparr>) demo_world)"
  by (simp add: demo_defs pipeline_defs upt_rec)

text \<open>
  C9. The reducer is always called with \<^verbatim>\<open>random_state=42\<close> and with arguments that
  depend on the batch alone. For a reducer that honours its seed, two renderings of the
  same batch, from any two process states (any state of the global random generator) and
  with any titles and keys, scatter the same sequence of points.
\<close>

theorem reduction_deterministic:
  assumes "seeded lib"
    and "create_tsne_visualization lib evs titles1 key1 w1 = (Inr p1, w1')"
    and "create_tsne_visualization lib evs titles2 key2 w2 = (Inr p2, w2')"
  shows "(\<exists>tsne. random_state tsne = Some 42 \<and>
            calls w1' = calls w1 @ [ReduceCall tsne evs] \<and>
            calls w2' = calls w2 @ [ReduceCall tsne evs]) \<and>
         (\<exists>fig1 fig2. files w1' p1 = Some fig1 \<and> files w2' p2 = Some fig2 \<and>
            scatter fig1 = scatter fig2)"
proof -
  let ?tsne = "\<lparr>n_components = TSNE_COMPONENTS,
            perplexity = min MIN_PERPLEXITY (int (length evs) - 1), random_state = Some 42\<rparr>"
  from create_tsne_visualization_Inr [OF assms(2)] obtain pts1 where
    one: "fit_transform lib ?tsne (np_random w1) evs = Inr pts1"
      "files w1' p1 = Some \<lparr>scatter = pts1, annotations = zip titles1 pts1, heading_key = key1\<rparr>"
      "calls w1' = calls w1 @ [ReduceCall ?tsne evs]"
    by auto
  from create_tsne_visualization_Inr [OF assms(3)] obtain pts2 where
    two: "fit_transform lib ?tsne (np_random w2) evs = Inr pts2"
      "files w2' p2 = Some \<lparr>scatter = pts2, annotations = zip titles2 pts2, heading_key = key2\<rparr>"
      "calls w2' = calls w2 @ [ReduceCall ?tsne evs]"
    by auto
  from assms(1) have "fit_transform lib ?tsne (np_random w1) evs = fit_transform lib ?tsne (np_random w2) evs"
    unfolding seeded_def by simp
  with one two have "pts1 = pts2" by simp
  with one two show ?thesis by simp
qed

theorem reduction_deterministic_witness:
  "seeded demo_lib \<and>
   (\<exists>w1' w2' fig1 fig2.
      create_tsne_visualization demo_lib [[0, 1], [1, 1]] [PStr ''Tea'', PStr ''Ice'']
        ''articles_dummy'' demo_world = (Inr ''static/tsne_articles_dummy.png'', w1') \<and>
      create_tsne_visualization demo_lib [[0, 1], [1, 1]] [PStr ''a'']
        ''movies_dummy'' (demo_world\<lparr>np_random := 7\<rparr>) = (Inr ''static/tsne_movies_dummy.png'', w2') \<and>
      files w1' ''static/tsne_articles_dummy.png'' = Some fig1 \<and>
      files w2' ''static/tsne_movies_dummy.png'' = Some fig2 \<and>
      scatter fig1 = scatter fig2)"
proof -
  obtain w1' where one: "create_tsne_visualization demo_lib [[0, 1], [1, 1]] [PStr ''Tea'', PStr ''Ice'']
        ''articles_dummy'' demo_world = (Inr ''static/tsne_articles_dummy.png'', w1')"
    by (simp add: demo_defs pipeline_defs)
  obtain w2' where two: "create_tsne_visualization demo_lib [[0, 1], [1, 1]] [PStr ''a'']
        ''movies_dummy'' (demo_world\<lparr>np_random := 7\<rparr>) = (Inr ''static/tsne_movies_dummy.png'', w2')"
    by (simp add: demo_defs pipeline_defs)
  from reduction_deterministic [OF demo_lib_seeded one two] one two demo_lib_seeded
  show ?thesis by auto
qed

text \<open>
  C10. Every type other than \<^verbatim>\<open>movies\<close> resolves to the articles with the fields
  \<^verbatim>\<open>content\<close> and \<^verbatim>\<open>title\<close>, whatever the source; and movies asked from
  \<^verbatim>\<open>huggingface\<close> while that dataset is empty resolve to the bundled movies.
\<close>

theorem get_data_by_type_fallbacks:
  "(data_type \<noteq> ''movies'' \<longrightarrow>
      get_data_by_type w data_type source = (Articles, ''content'', ''title'') \<and>
      deref w Articles = DUMMY_ARTICLES w) \<and>
   (HUGGING_FACE_MOVIES w = [] \<longrightarrow>
      get_data_by_type w ''movies'' ''huggingface'' = (Movies, ''plot'', ''title'') \<and>
      deref w Movies = DUMMY_MOVIES w)"
  by (simp add: get_data_by_type_def)

theorem get_data_by_type_fallbacks_witness:
  "''books'' \<noteq> ''movies'' \<and>
   get_data_by_type demo_world ''books'' ''huggingface'' = (Articles, ''content'', ''title'') \<and>
   deref demo_world Articles = demo_articles \<and>
   HUGGING_FACE_MOVIES demo_world = [] \<and>
   get_data_by_type demo_world ''movies'' ''huggingface'' = (Movies, ''plot'', ''title'') \<and>
   deref demo_world Movies = demo_movies"
  using get_data_by_type_fallbacks [of "''books''" demo_world "''huggingface''"]
  by (simp add: demo_world_def)

end
